theory Spec2Isabelle
  imports Main "HOL-Library.Word"
begin

section \<open>DAB transmission mode descriptors\<close>

text \<open>
  The development embeds \<^verbatim>\<open>include/types/mode_descriptor.h\<close>. Every quantity of
  that header is a \<^verbatim>\<open>std::size_t\<close>; it is taken here as a 64-bit unsigned
  machine integer, so that \<open>+\<close>, \<open>-\<close> and \<open>*\<close> wrap modulo \<open>2 ^ 64\<close> exactly as
  unsigned arithmetic does in a C++ constant expression.
\<close>

type_synonym size_t = "64 word"

subsection \<open>The doubling search\<close>

text \<open>
  \<^verbatim>\<open>detail::next_power_of_two(value, start = 1)\<close> returns \<open>start\<close> when
  \<open>start > value\<close> and otherwise calls itself with \<open>start * 2\<close>. The recursion is not
  bounded by the code, so the embedding is a partial function: \<open>None\<close> is the call that
  never returns.
\<close>

partial_function (option) next_power_of_two :: "size_t \<Rightarrow> size_t \<Rightarrow> size_t option" where
  "next_power_of_two val start =
     (if start > val then Some start else next_power_of_two val (start * 2))"

subsection \<open>Template arguments and members of \<^verbatim>\<open>mode_descriptor\<close>\<close>

text \<open>The nine non-type template parameters, in the order of the template head.\<close>

record template_args =
  Carriers :: size_t
  FrameSymbols :: size_t
  FicSymbols :: size_t
  FrameFibs :: size_t
  FrameCifs :: size_t
  FrameDuration :: size_t
  GuardDuration :: size_t
  SymbolDuration :: size_t
  NullDuration :: size_t

text \<open>The thirteen \<^verbatim>\<open>integral_constant\<close> members, in the order of the struct body.\<close>

record members =
  carriers :: size_t
  frame_symbols :: size_t
  fic_symbols :: size_t
  msc_symbols :: size_t
  frame_fibs :: size_t
  frame_cifs :: size_t
  fib_codeword_bits :: size_t
  symbol_bits :: size_t
  fft_length :: size_t
  frame_duration :: size_t
  guard_duration :: size_t
  symbol_duration :: size_t
  null_duration :: size_t

text \<open>
  Instantiating the template evaluates every member's constant expression. Two of them
  can have no value: the division of \<^verbatim>\<open>fib_codeword_bits\<close> when
  \<^verbatim>\<open>FrameCifs\<close> is zero, and the call of \<^verbatim>\<open>next_power_of_two\<close> when it does not
  return. In both cases the specialisation does not exist, which is \<open>None\<close> here. The
  header performs no other check.
\<close>

definition mode_descriptor :: "template_args \<Rightarrow> members option" where
  "mode_descriptor a =
     (if FrameCifs a = 0 then None
      else case next_power_of_two (Carriers a) 1 of
        None \<Rightarrow> None
      | Some n \<Rightarrow> Some
          \<lparr> carriers = Carriers a,
            frame_symbols = FrameSymbols a - 1,
            fic_symbols = FicSymbols a,
            msc_symbols = (FrameSymbols a - 1) - FicSymbols a,
            frame_fibs = FrameFibs a,
            frame_cifs = FrameCifs a,
            fib_codeword_bits = FrameFibs a * 256 div FrameCifs a,
            symbol_bits = Carriers a * 2,
            fft_length = n,
            frame_duration = FrameDuration a,
            guard_duration = GuardDuration a,
            symbol_duration = SymbolDuration a,
            null_duration = NullDuration a \<rparr>)"

subsection \<open>The four standardised modes\<close>

definition mode_1 :: template_args where
  "mode_1 = \<lparr> Carriers = 1536, FrameSymbols = 76, FicSymbols = 3, FrameFibs = 12,
              FrameCifs = 4, FrameDuration = 96000, GuardDuration = 246,
              SymbolDuration = 1000, NullDuration = 1297 \<rparr>"

definition mode_2 :: template_args where
  "mode_2 = \<lparr> Carriers = 384, FrameSymbols = 76, FicSymbols = 3, FrameFibs = 3,
              FrameCifs = 1, FrameDuration = 24000, GuardDuration = 62,
              SymbolDuration = 250, NullDuration = 324 \<rparr>"

definition mode_3 :: template_args where
  "mode_3 = \<lparr> Carriers = 192, FrameSymbols = 153, FicSymbols = 8, FrameFibs = 4,
              FrameCifs = 1, FrameDuration = 24000, GuardDuration = 31,
              SymbolDuration = 125, NullDuration = 168 \<rparr>"

definition mode_4 :: template_args where
  "mode_4 = \<lparr> Carriers = 768, FrameSymbols = 76, FicSymbols = 3, FrameFibs = 6,
              FrameCifs = 2, FrameDuration = 48000, GuardDuration = 123,
              SymbolDuration = 500, NullDuration = 648 \<rparr>"

subsection \<open>Selecting a mode by its identifier\<close>

text \<open>
  Modelled from the spec: the enumeration of the four transmission modes lives in
  \<^verbatim>\<open>types/transmission_mode.h\<close> and the functions that select a descriptor by a
  mode value live outside this header; neither is part of the embedded source. The
  specification describes an enumeration with exactly four variants and a function
  \<^verbatim>\<open>lookup\<close> from a variant to the primary parameters of that mode.
\<close>

datatype TransmissionMode = Mode1 | Mode2 | Mode3 | Mode4

text \<open>
  Modelled from the spec: \<^verbatim>\<open>lookup\<close> is missing from the source. Each variant is
  sent to the alias of the header that carries its number.
\<close>

fun lookup :: "TransmissionMode \<Rightarrow> template_args" where
  "lookup Mode1 = mode_1"
| "lookup Mode2 = mode_2"
| "lookup Mode3 = mode_3"
| "lookup Mode4 = mode_4"

section \<open>Properties of the doubling search\<close>

lemma npt_step: "\<not> start > val \<Longrightarrow> next_power_of_two val start = next_power_of_two val (start * 2)"
  by (subst next_power_of_two.simps) simp

lemma npt_stop: "start > val \<Longrightarrow> next_power_of_two val start = Some start"
  by (subst next_power_of_two.simps) simp

text \<open>
  Powers of two below \<open>2 ^ 64\<close> are read back unchanged, and a run that starts at
  \<open>2 ^ k\<close> with every smaller power at most \<open>val\<close> stops at the first power
  above \<open>val\<close>, provided \<open>val\<close> is below \<open>2 ^ 63\<close>.
\<close>

lemma unat_p2: assumes "k < 64" shows "unat ((2::size_t) ^ k) = 2 ^ k"
proof -
  have lt: "(2::nat) ^ k < 2 ^ 64" using assms by (intro power_strict_increasing) auto
  have "unat (of_nat (2 ^ k) :: size_t) = 2 ^ k mod 2 ^ LENGTH(64)" by (rule unat_of_nat)
  also have "\<dots> = 2 ^ k" using lt by simp
  finally show ?thesis by simp
qed

lemma npt_run:
  "k < 64 \<Longrightarrow> unat val < 2 ^ 63 \<Longrightarrow> (\<forall>j<k. 2 ^ j \<le> unat val) \<Longrightarrow>
   \<exists>m. k \<le> m \<and> m < 64 \<and> next_power_of_two val (2 ^ k) = Some (2 ^ m) \<and>
       unat val < 2 ^ m \<and> (\<forall>j<m. 2 ^ j \<le> unat val)"
proof (induction "63 - k" arbitrary: k)
  case 0
  then have k: "k = 63" by simp
  have "val < 2 ^ k" using 0(3) k by (simp add: word_less_nat_alt unat_p2)
  then have "next_power_of_two val (2 ^ k) = Some (2 ^ k)" by (rule npt_stop)
  then show ?case using 0 k by auto
next
  case (Suc d)
  then have k: "k < 63" by simp
  show ?case
  proof (cases "val < 2 ^ k")
    case True
    then have "next_power_of_two val (2 ^ k) = Some (2 ^ k)" by (rule npt_stop)
    moreover have "unat val < 2 ^ k" using True Suc.prems(1) by (simp add: word_less_nat_alt unat_p2)
    ultimately show ?thesis using Suc.prems by auto
  next
    case False
    then have le: "2 ^ k \<le> unat val" using Suc.prems(1) by (simp add: word_less_nat_alt unat_p2)
    have step: "next_power_of_two val (2 ^ k) = next_power_of_two val (2 ^ Suc k)"
      using npt_step [OF False] by (simp add: mult.commute)
    have "\<forall>j<Suc k. 2 ^ j \<le> unat val" using le Suc.prems(3) by (auto simp: less_Suc_eq)
    moreover have "d = 63 - Suc k" using Suc.hyps(2) by simp
    moreover have "Suc k < 64" using k by simp
    ultimately obtain m where "Suc k \<le> m" "m < 64" "next_power_of_two val (2 ^ Suc k) = Some (2 ^ m)"
      "unat val < 2 ^ m" "\<forall>j<m. 2 ^ j \<le> unat val"
      using Suc.hyps(1) [of "Suc k"] Suc.prems(2) by blast
    then show ?thesis using step by (intro exI [of _ m]) auto
  qed
qed

lemma npt_gt: assumes "next_power_of_two val start = Some r" shows "val < r"
  by (rule next_power_of_two.raw_induct [OF _ assms]) (auto split: if_splits)

lemma npt_mult: assumes "next_power_of_two val start = Some r" shows "\<exists>k. r = start * 2 ^ k"
proof (rule next_power_of_two.raw_induct [OF _ assms])
  fix f :: "size_t \<Rightarrow> size_t \<Rightarrow> size_t option" and val start r :: size_t
  assume IH: "\<And>v s y. f v s = Some y \<Longrightarrow> \<exists>k. y = s * 2 ^ k"
    and eq: "(if val < start then Some start else f val (start * 2)) = Some r"
  show "\<exists>k. r = start * 2 ^ k"
  proof (cases "val < start")
    case True
    then have "r = start * 2 ^ 0" using eq by simp
    then show ?thesis by blast
  next
    case False
    then have "f val (start * 2) = Some r" using eq by simp
    then obtain k where "r = start * 2 * 2 ^ k" using IH by blast
    then have "r = start * 2 ^ Suc k" by (simp add: mult.assoc)
    then show ?thesis by blast
  qed
qed

lemma npt_diverges: assumes "2 ^ 63 \<le> unat val" shows "next_power_of_two val 1 = None"
proof (rule ccontr)
  assume "next_power_of_two val 1 \<noteq> None"
  then obtain r where r: "next_power_of_two val 1 = Some r" by auto
  from npt_mult [OF r] obtain k where k: "r = 2 ^ k" by auto
  have gt: "unat val < unat r" using npt_gt [OF r] by (simp add: word_less_nat_alt)
  show False
  proof (cases "k < 64")
    case True
    then have "unat r = 2 ^ k" using k by (simp add: unat_p2)
    moreover have "(2::nat) ^ k \<le> 2 ^ 63" using True by (intro power_increasing) auto
    ultimately show False using gt assms by simp
  next
    case False
    then have "r = 0" using k by (simp add: exp_eq_zero_iff)
    then show False using gt by simp
  qed
qed

text \<open>
  Claim C7: on input zero the search returns 1, the value it starts from, because 1 is
  already greater than 0.
\<close>

theorem next_power_of_two_zero: "next_power_of_two 0 1 = Some 1"
  by (rule npt_stop) simp

text \<open>The search as the header calls it, from the default start 1.\<close>

lemma npt_from_one:
  assumes "unat val < 2 ^ 63"
  shows "\<exists>m<64. next_power_of_two val 1 = Some (2 ^ m) \<and> unat val < 2 ^ m \<and>
           (\<forall>j<m. 2 ^ j \<le> unat val)"
  using npt_run [of 0 val] assms by auto

lemma lt_p63: "(val < (2::size_t) ^ 63) = (unat val < 2 ^ 63)"
  using unat_p2 [of 63] by (simp add: word_less_nat_alt)

text \<open>Concrete runs, unfolded by the simplifier.\<close>

lemma npt_1536: "next_power_of_two 1536 1 = Some 2048"
  by (simp add: next_power_of_two.simps)

lemma npt_1024: "next_power_of_two 1024 1 = Some 2048"
  by (simp add: next_power_of_two.simps)

section \<open>Exact powers of two\<close>

text \<open>
  The test of the header is the strict \<open>start > value\<close>, so an input that is itself a
  power of two is not returned: at \<open>1024 = 2 ^ 10\<close> the search goes on to 2048.
\<close>

theorem next_power_of_two_exact_counterexample:
  "(1024::size_t) = 2 ^ 10 \<and> next_power_of_two 1024 1 = Some 2048 \<and>
   next_power_of_two 1024 1 \<noteq> Some 1024"
  by (simp add: npt_1024)

text \<open>
  Claim C1, as the code has it: for \<open>n = 2 ^ k\<close> with \<open>k < 63\<close> the search returns
  \<open>2 ^ (k + 1)\<close>, the next strictly larger power of two, and not \<open>n\<close>.
\<close>

theorem next_power_of_two_of_power:
  assumes "k < 63"
  shows "next_power_of_two (2 ^ k) 1 = Some (2 ^ Suc k)"
proof -
  have k64: "k < 64" using assms by simp
  have u: "unat ((2::size_t) ^ k) = 2 ^ k" using k64 by (rule unat_p2)
  have "(2::nat) ^ k < 2 ^ 63" using assms by (intro power_strict_increasing) auto
  then have "unat ((2::size_t) ^ k) < 2 ^ 63" using u by simp
  from npt_from_one [OF this] obtain m where m: "m < 64"
    "next_power_of_two (2 ^ k) 1 = Some (2 ^ m)" "(2::nat) ^ k < 2 ^ m"
    "\<forall>j<m. (2::nat) ^ j \<le> 2 ^ k" using u by auto
  have km: "k < m" using m(3) by simp
  then have "(2::nat) ^ (m - 1) \<le> 2 ^ k" using m(4) by simp
  then have "m - 1 \<le> k" by simp
  then have "m = Suc k" using km by simp
  then show ?thesis using m(2) by simp
qed

text \<open>The statement at \<open>k = 10\<close>.\<close>

theorem next_power_of_two_of_power_witness:
  "(10::nat) < 63 \<and> next_power_of_two (2 ^ 10) 1 = Some (2 ^ Suc 10)"
  using next_power_of_two_of_power [of 10] by simp

section \<open>The result is a power of two that bounds the input\<close>

text \<open>
  Claim C6: for every \<open>n\<close> below \<open>2 ^ 63\<close>, the range in which the search returns,
  the result of \<open>next_power_of_two n\<close> is a power of two and is at least \<open>n\<close>.
\<close>

theorem next_power_of_two_bound:
  assumes "val < 2 ^ 63"
  shows "\<exists>r m. next_power_of_two val 1 = Some r \<and> m < 64 \<and> unat r = 2 ^ m \<and> val \<le> r"
proof -
  have "unat val < 2 ^ 63" using assms by (simp only: lt_p63)
  from npt_from_one [OF this] obtain m where m: "m < 64"
    "next_power_of_two val 1 = Some (2 ^ m)" "unat val < 2 ^ m" by auto
  have "unat ((2::size_t) ^ m) = 2 ^ m" using m(1) by (rule unat_p2)
  moreover from this have "val \<le> 2 ^ m" using m(3) by (simp add: word_le_nat_alt)
  ultimately show ?thesis using m(1,2) by blast
qed

text \<open>The statement at \<open>n = 1536\<close>, the carrier count of mode 1.\<close>

theorem next_power_of_two_bound_witness:
  "(1536::size_t) < 2 ^ 63 \<and>
   (\<exists>r m. next_power_of_two 1536 1 = Some r \<and> m < 64 \<and> unat r = 2 ^ m \<and> 1536 \<le> r)"
  using next_power_of_two_bound [of 1536] by simp

section \<open>Termination of the doubling search\<close>

text \<open>
  At \<open>n = 2 ^ 63\<close> the accumulator reaches \<open>2 ^ 63\<close>, which is not greater than
  \<open>n\<close>; doubling it wraps to 0, and 0 doubled stays 0, so the call never returns.
\<close>

theorem next_power_of_two_limit_counterexample:
  "(2::size_t) ^ 63 \<le> 2 ^ 63 \<and> next_power_of_two (2 ^ 63) 1 = None"
proof -
  have "unat ((2::size_t) ^ 63) = 2 ^ 63" by (rule unat_p2) simp
  then have "2 ^ 63 \<le> unat ((2::size_t) ^ 63)" by simp
  then have "next_power_of_two (2 ^ 63) 1 = None" by (rule npt_diverges)
  then show ?thesis by simp
qed

text \<open>
  Claim C9, as the code has it: the search returns exactly for the inputs strictly below
  \<open>2 ^ 63\<close>; from \<open>2 ^ 63\<close> on it does not return.
\<close>

theorem next_power_of_two_returns_iff:
  "(\<exists>r. next_power_of_two val 1 = Some r) = (val < 2 ^ 63)"
proof
  assume "\<exists>r. next_power_of_two val 1 = Some r"
  then have "\<not> 2 ^ 63 \<le> unat val" using npt_diverges [of val] by auto
  then show "val < 2 ^ 63" unfolding lt_p63 by simp
next
  assume "val < 2 ^ 63"
  then have "unat val < 2 ^ 63" by (simp only: lt_p63)
  from npt_from_one [OF this] show "\<exists>r. next_power_of_two val 1 = Some r" by blast
qed

text \<open>The statement at \<open>n = 768\<close>, the carrier count of mode 4.\<close>

theorem next_power_of_two_returns_iff_witness:
  "(\<exists>r. next_power_of_two 768 1 = Some r) \<and> (768::size_t) < 2 ^ 63"
  using next_power_of_two_returns_iff [of 768] by simp

section \<open>The four standardised modes, evaluated\<close>

lemma npt_384: "next_power_of_two 384 1 = Some 512"
  by (simp add: next_power_of_two.simps)

lemma npt_192: "next_power_of_two 192 1 = Some 256"
  by (simp add: next_power_of_two.simps)

lemma npt_768: "next_power_of_two 768 1 = Some 1024"
  by (simp add: next_power_of_two.simps)

text \<open>The complete member set of each of the four specialisations.\<close>

lemma descriptor_1:
  "mode_descriptor mode_1 = Some
     \<lparr> carriers = 1536, frame_symbols = 75, fic_symbols = 3, msc_symbols = 72,
       frame_fibs = 12, frame_cifs = 4, fib_codeword_bits = 768, symbol_bits = 3072,
       fft_length = 2048, frame_duration = 96000, guard_duration = 246,
       symbol_duration = 1000, null_duration = 1297 \<rparr>"
  by (simp add: mode_descriptor_def mode_1_def npt_1536)

lemma descriptor_2:
  "mode_descriptor mode_2 = Some
     \<lparr> carriers = 384, frame_symbols = 75, fic_symbols = 3, msc_symbols = 72,
       frame_fibs = 3, frame_cifs = 1, fib_codeword_bits = 768, symbol_bits = 768,
       fft_length = 512, frame_duration = 24000, guard_duration = 62,
       symbol_duration = 250, null_duration = 324 \<rparr>"
  by (simp add: mode_descriptor_def mode_2_def npt_384)

lemma descriptor_3:
  "mode_descriptor mode_3 = Some
     \<lparr> carriers = 192, frame_symbols = 152, fic_symbols = 8, msc_symbols = 144,
       frame_fibs = 4, frame_cifs = 1, fib_codeword_bits = 1024, symbol_bits = 384,
       fft_length = 256, frame_duration = 24000, guard_duration = 31,
       symbol_duration = 125, null_duration = 168 \<rparr>"
  by (simp add: mode_descriptor_def mode_3_def npt_192)

lemma descriptor_4:
  "mode_descriptor mode_4 = Some
     \<lparr> carriers = 768, frame_symbols = 75, fic_symbols = 3, msc_symbols = 72,
       frame_fibs = 6, frame_cifs = 2, fib_codeword_bits = 768, symbol_bits = 1536,
       fft_length = 1024, frame_duration = 48000, guard_duration = 123,
       symbol_duration = 500, null_duration = 648 \<rparr>"
  by (simp add: mode_descriptor_def mode_4_def npt_768)

text \<open>
  Claim C2: for each of the four modes the derived members have the values of the
  concrete scenarios: mode 1 gives \<open>frame_symbols = 75\<close>, \<open>msc_symbols = 72\<close>,
  \<open>fib_codeword_bits = 768\<close>, \<open>symbol_bits = 3072\<close>, \<open>fft_length = 2048\<close>; mode 2
  gives 75, 72, 768, 768, 512; mode 3 gives 152, 144, 1024, 384, 256; mode 4 gives 75, 72,
  768, 1536, 1024.
\<close>

theorem canonical_derived_values:
  "(\<exists>d. mode_descriptor mode_1 = Some d \<and> frame_symbols d = 75 \<and> msc_symbols d = 72 \<and>
        fib_codeword_bits d = 768 \<and> symbol_bits d = 3072 \<and> fft_length d = 2048) \<and>
   (\<exists>d. mode_descriptor mode_2 = Some d \<and> frame_symbols d = 75 \<and> msc_symbols d = 72 \<and>
        fib_codeword_bits d = 768 \<and> symbol_bits d = 768 \<and> fft_length d = 512) \<and>
   (\<exists>d. mode_descriptor mode_3 = Some d \<and> frame_symbols d = 152 \<and> msc_symbols d = 144 \<and>
        fib_codeword_bits d = 1024 \<and> symbol_bits d = 384 \<and> fft_length d = 256) \<and>
   (\<exists>d. mode_descriptor mode_4 = Some d \<and> frame_symbols d = 75 \<and> msc_symbols d = 72 \<and>
        fib_codeword_bits d = 768 \<and> symbol_bits d = 1536 \<and> fft_length d = 1024)"
  by (simp add: descriptor_1 descriptor_2 descriptor_3 descriptor_4)

text \<open>
  Claim C3: \<open>lookup\<close> is a function on an enumeration of exactly four variants, its
  result is a parameter record and never an error, and for each variant the record holds
  the literal values of the table: mode 1 is 1536, 76, 3, 12, 4, 96000, 246, 1000, 1297,
  and so on for modes 2, 3 and 4.
\<close>

theorem lookup_table:
  "(\<forall>m. m = Mode1 \<or> m = Mode2 \<or> m = Mode3 \<or> m = Mode4) \<and>
   lookup Mode1 = \<lparr> Carriers = 1536, FrameSymbols = 76, FicSymbols = 3, FrameFibs = 12,
                     FrameCifs = 4, FrameDuration = 96000, GuardDuration = 246,
                     SymbolDuration = 1000, NullDuration = 1297 \<rparr> \<and>
   lookup Mode2 = \<lparr> Carriers = 384, FrameSymbols = 76, FicSymbols = 3, FrameFibs = 3,
                     FrameCifs = 1, FrameDuration = 24000, GuardDuration = 62,
                     SymbolDuration = 250, NullDuration = 324 \<rparr> \<and>
   lookup Mode3 = \<lparr> Carriers = 192, FrameSymbols = 153, FicSymbols = 8, FrameFibs = 4,
                     FrameCifs = 1, FrameDuration = 24000, GuardDuration = 31,
                     SymbolDuration = 125, NullDuration = 168 \<rparr> \<and>
   lookup Mode4 = \<lparr> Carriers = 768, FrameSymbols = 76, FicSymbols = 3, FrameFibs = 6,
                     FrameCifs = 2, FrameDuration = 48000, GuardDuration = 123,
                     SymbolDuration = 500, NullDuration = 648 \<rparr>"
proof -
  have "\<forall>m. m = Mode1 \<or> m = Mode2 \<or> m = Mode3 \<or> m = Mode4"
    using TransmissionMode.exhaust by blast
  then show ?thesis by (simp add: mode_1_def mode_2_def mode_3_def mode_4_def)
qed

text \<open>
  Claim C4: for all four modes the derivation returns a descriptor, and its
  \<open>msc_symbols\<close> is the integer \<open>FrameSymbols - 1 - FicSymbols\<close>, computed without
  wrap-around, which is not negative.
\<close>

theorem canonical_derivation_succeeds:
  "(\<exists>d. mode_descriptor mode_1 = Some d \<and>
        uint (msc_symbols d) = uint (FrameSymbols mode_1) - 1 - uint (FicSymbols mode_1) \<and>
        0 \<le> uint (FrameSymbols mode_1) - 1 - uint (FicSymbols mode_1)) \<and>
   (\<exists>d. mode_descriptor mode_2 = Some d \<and>
        uint (msc_symbols d) = uint (FrameSymbols mode_2) - 1 - uint (FicSymbols mode_2) \<and>
        0 \<le> uint (FrameSymbols mode_2) - 1 - uint (FicSymbols mode_2)) \<and>
   (\<exists>d. mode_descriptor mode_3 = Some d \<and>
        uint (msc_symbols d) = uint (FrameSymbols mode_3) - 1 - uint (FicSymbols mode_3) \<and>
        0 \<le> uint (FrameSymbols mode_3) - 1 - uint (FicSymbols mode_3)) \<and>
   (\<exists>d. mode_descriptor mode_4 = Some d \<and>
        uint (msc_symbols d) = uint (FrameSymbols mode_4) - 1 - uint (FicSymbols mode_4) \<and>
        0 \<le> uint (FrameSymbols mode_4) - 1 - uint (FicSymbols mode_4))"
proof -
  have "uint (FrameSymbols mode_1) = 76" "uint (FicSymbols mode_1) = 3"
       "uint (FrameSymbols mode_2) = 76" "uint (FicSymbols mode_2) = 3"
       "uint (FrameSymbols mode_3) = 153" "uint (FicSymbols mode_3) = 8"
       "uint (FrameSymbols mode_4) = 76" "uint (FicSymbols mode_4) = 3"
    by (simp_all add: mode_1_def mode_2_def mode_3_def mode_4_def)
  then show ?thesis
    by (simp add: descriptor_1 descriptor_2 descriptor_3 descriptor_4)
qed

section \<open>Arbitrary template arguments\<close>

text \<open>
  The specialisation exists whenever \<open>FrameCifs\<close> is not zero and \<open>Carriers\<close> is below
  \<open>2 ^ 63\<close>; its members are then the expressions of the struct body.
\<close>

lemma descriptor_Some:
  assumes "FrameCifs a \<noteq> 0" "Carriers a < 2 ^ 63"
  shows "\<exists>n. mode_descriptor a = Some
     \<lparr> carriers = Carriers a, frame_symbols = FrameSymbols a - 1,
       fic_symbols = FicSymbols a, msc_symbols = (FrameSymbols a - 1) - FicSymbols a,
       frame_fibs = FrameFibs a, frame_cifs = FrameCifs a,
       fib_codeword_bits = FrameFibs a * 256 div FrameCifs a,
       symbol_bits = Carriers a * 2, fft_length = n,
       frame_duration = FrameDuration a, guard_duration = GuardDuration a,
       symbol_duration = SymbolDuration a, null_duration = NullDuration a \<rparr>"
proof -
  have "unat (Carriers a) < 2 ^ 63" using assms(2) by (simp only: lt_p63)
  from npt_from_one [OF this] obtain n where "next_power_of_two (Carriers a) 1 = Some n"
    by blast
  then show ?thesis using assms(1) by (simp add: mode_descriptor_def)
qed

subsection \<open>The codeword size is a truncated quotient\<close>

text \<open>
  With the arguments of mode 1 and \<open>FrameCifs = 5\<close>, 5 does not divide
  \<open>12 * 256 = 3072\<close>; the specialisation exists all the same and its
  \<open>fib_codeword_bits\<close> is 614, the quotient rounded down.
\<close>

theorem cif_partition_counterexample:
  "\<not> (5::nat) dvd 12 * 256 \<and>
   mode_descriptor (mode_1 \<lparr> FrameCifs := 5 \<rparr>) = Some
     \<lparr> carriers = 1536, frame_symbols = 75, fic_symbols = 3, msc_symbols = 72,
       frame_fibs = 12, frame_cifs = 5, fib_codeword_bits = 614, symbol_bits = 3072,
       fft_length = 2048, frame_duration = 96000, guard_duration = 246,
       symbol_duration = 1000, null_duration = 1297 \<rparr>"
  by (simp add: mode_descriptor_def mode_1_def npt_1536)

text \<open>
  Claim C5, as the code has it: for every argument record with \<open>FrameCifs\<close> not zero
  (and \<open>Carriers\<close> below \<open>2 ^ 63\<close>) the derivation returns a descriptor, with no
  error, and \<open>fib_codeword_bits\<close> is the unsigned quotient of
  \<open>FrameFibs * 256\<close> (modulo \<open>2 ^ 64\<close>) by \<open>FrameCifs\<close>, rounded down, whether or
  not the division is exact.
\<close>

theorem fib_codeword_bits_truncates:
  assumes "FrameCifs a \<noteq> 0" "Carriers a < 2 ^ 63"
  shows "\<exists>d. mode_descriptor a = Some d \<and>
           unat (fib_codeword_bits d) =
             (unat (FrameFibs a) * 256 mod 2 ^ 64) div unat (FrameCifs a)"
proof -
  from descriptor_Some [OF assms] obtain d where d: "mode_descriptor a = Some d"
    "fib_codeword_bits d = FrameFibs a * 256 div FrameCifs a" by force
  have "unat (FrameFibs a * 256 div FrameCifs a) = unat (FrameFibs a * 256) div unat (FrameCifs a)"
    by (rule unat_div)
  also have "unat (FrameFibs a * 256) = unat (FrameFibs a) * 256 mod 2 ^ 64"
    by (simp add: unat_word_ariths)
  finally show ?thesis using d by auto
qed

text \<open>The statement at the arguments of mode 1 with \<open>FrameCifs = 5\<close>.\<close>

theorem fib_codeword_bits_truncates_witness:
  "FrameCifs (mode_1 \<lparr> FrameCifs := 5 \<rparr>) \<noteq> 0 \<and> Carriers (mode_1 \<lparr> FrameCifs := 5 \<rparr>) < 2 ^ 63 \<and>
   (\<exists>d. mode_descriptor (mode_1 \<lparr> FrameCifs := 5 \<rparr>) = Some d \<and> unat (fib_codeword_bits d) = 614)"
  using fib_codeword_bits_truncates [of "mode_1 \<lparr> FrameCifs := 5 \<rparr>"]
  by (simp add: mode_1_def)

subsection \<open>Symbol counts in modular arithmetic\<close>

text \<open>
  Claim C10: \<open>frame_symbols\<close> and \<open>msc_symbols\<close> are computed modulo \<open>2 ^ 64\<close>
  and nothing is validated first: the descriptor exists whatever \<open>FrameSymbols\<close> and
  \<open>FicSymbols\<close> are, \<open>frame_symbols\<close> is \<open>(FrameSymbols - 1) mod 2 ^ 64\<close> and
  \<open>msc_symbols\<close> is \<open>(FrameSymbols - 1 - FicSymbols) mod 2 ^ 64\<close>. When
  \<open>FrameSymbols\<close> is 0 the first is \<open>2 ^ 64 - 1\<close>, and when \<open>FicSymbols\<close> exceeds
  \<open>FrameSymbols - 1\<close> the second is \<open>2 ^ 64\<close> plus the negative difference.
\<close>

theorem symbol_counts_wrap:
  assumes "FrameCifs a \<noteq> 0" "Carriers a < 2 ^ 63"
  shows "\<exists>d. mode_descriptor a = Some d \<and>
           uint (frame_symbols d) = (uint (FrameSymbols a) - 1) mod 2 ^ 64 \<and>
           uint (msc_symbols d) = (uint (FrameSymbols a) - 1 - uint (FicSymbols a)) mod 2 ^ 64 \<and>
           (FrameSymbols a = 0 \<longrightarrow> uint (frame_symbols d) = 2 ^ 64 - 1) \<and>
           (uint (FrameSymbols a) - 1 < uint (FicSymbols a) \<longrightarrow>
              uint (msc_symbols d) = 2 ^ 64 + (uint (FrameSymbols a) - 1 - uint (FicSymbols a)))"
proof -
  from descriptor_Some [OF assms] obtain d where d: "mode_descriptor a = Some d"
    "frame_symbols d = FrameSymbols a - 1"
    "msc_symbols d = (FrameSymbols a - 1) - FicSymbols a" by force
  have fs: "uint (FrameSymbols a - 1) = (uint (FrameSymbols a) - 1) mod 2 ^ 64"
    by (simp add: uint_word_ariths)
  have "uint ((FrameSymbols a - 1) - FicSymbols a)
          = (uint (FrameSymbols a - 1) - uint (FicSymbols a)) mod 2 ^ 64"
    by (simp add: uint_word_ariths)
  also have "\<dots> = (uint (FrameSymbols a) - 1 - uint (FicSymbols a)) mod 2 ^ 64"
    unfolding fs by (rule mod_diff_left_eq)
  finally have ms: "uint ((FrameSymbols a - 1) - FicSymbols a)
          = (uint (FrameSymbols a) - 1 - uint (FicSymbols a)) mod 2 ^ 64" .
  have lo: "- (2 ^ 64) \<le> uint (FrameSymbols a) - 1 - uint (FicSymbols a)"
  proof -
    have "uint (FicSymbols a) < 2 ^ 64" using uint_lt2p [of "FicSymbols a"] by simp
    moreover have "0 \<le> uint (FrameSymbols a)" by simp
    ultimately show ?thesis by linarith
  qed
  have w: "uint (FrameSymbols a) - 1 < uint (FicSymbols a) \<longrightarrow>
           (uint (FrameSymbols a) - 1 - uint (FicSymbols a)) mod 2 ^ 64 =
             2 ^ 64 + (uint (FrameSymbols a) - 1 - uint (FicSymbols a))"
  proof
    assume lt: "uint (FrameSymbols a) - 1 < uint (FicSymbols a)"
    define x where "x = uint (FrameSymbols a) - 1 - uint (FicSymbols a)"
    define M :: int where "M = 2 ^ 64"
    have "x < 0" "- M \<le> x" using lt lo by (simp_all add: x_def M_def)
    then have "0 \<le> x + M" "x + M < M" by simp_all
    then have "(x + M) mod M = x + M" by (rule mod_pos_pos_trivial)
    moreover have "(x + M) mod M = x mod M" by simp
    ultimately have "x mod 2 ^ 64 = x + 2 ^ 64" by (simp add: M_def)
    then show "(uint (FrameSymbols a) - 1 - uint (FicSymbols a)) mod 2 ^ 64 =
             2 ^ 64 + (uint (FrameSymbols a) - 1 - uint (FicSymbols a))"
      by (simp add: x_def)
  qed
  have c1: "uint (frame_symbols d) = (uint (FrameSymbols a) - 1) mod 2 ^ 64"
    using d(2) fs by (simp only:)
  have c2: "uint (msc_symbols d) = (uint (FrameSymbols a) - 1 - uint (FicSymbols a)) mod 2 ^ 64"
    using d(3) ms by (simp only:)
  have c3: "FrameSymbols a = 0 \<longrightarrow> uint (frame_symbols d) = 2 ^ 64 - 1"
  proof
    assume "FrameSymbols a = 0"
    then have "(uint (FrameSymbols a) - 1) mod 2 ^ 64 = 2 ^ 64 - 1" by simp
    then show "uint (frame_symbols d) = 2 ^ 64 - 1" using c1 by (simp only:)
  qed
  have c4: "uint (FrameSymbols a) - 1 < uint (FicSymbols a) \<longrightarrow>
              uint (msc_symbols d) = 2 ^ 64 + (uint (FrameSymbols a) - 1 - uint (FicSymbols a))"
    using c2 w by (simp only:)
  show ?thesis using d(1) c1 c2 c3 c4 by blast
qed

text \<open>The statement at the arguments of mode 1 with \<open>FrameSymbols = 0\<close>.\<close>

theorem symbol_counts_wrap_witness:
  "FrameCifs (mode_1 \<lparr> FrameSymbols := 0 \<rparr>) \<noteq> 0 \<and>
   Carriers (mode_1 \<lparr> FrameSymbols := 0 \<rparr>) < 2 ^ 63 \<and>
   FrameSymbols (mode_1 \<lparr> FrameSymbols := 0 \<rparr>) = 0 \<and>
   uint (FrameSymbols (mode_1 \<lparr> FrameSymbols := 0 \<rparr>)) - 1 < uint (FicSymbols (mode_1 \<lparr> FrameSymbols := 0 \<rparr>)) \<and>
   (\<exists>d. mode_descriptor (mode_1 \<lparr> FrameSymbols := 0 \<rparr>) = Some d \<and>
        uint (frame_symbols d) = 18446744073709551615 \<and>
        uint (msc_symbols d) = 18446744073709551612)"
  using symbol_counts_wrap [of "mode_1 \<lparr> FrameSymbols := 0 \<rparr>"]
  by (auto simp: mode_1_def)

end
